theory Spec2Isabelle
  imports Main
begin

section \<open>Food-donation backend: listing lifecycle, claim ledger, chat\<close>

text \<open>
  A shallow embedding of the request handlers of \<^verbatim>\<open>src/server/index.js\<close>.

  Modelling decisions, fixed here once:
  \<^item> A stored document is a finite map from field names to JavaScript values; a field
    the document does not have (\<^verbatim>\<open>undefined\<close>) is \<open>None\<close>.
  \<^item> A collection is a list in insertion order; \<^verbatim>\<open>findOne\<close> returns the first
    match in that order.  Listing ids (\<^verbatim>\<open>_id\<close>) are natural numbers, so a malformed
    id cannot be written.
  \<^item> Each handler runs from start to end on the store: one request is one step.
  \<^item> \<^verbatim>\<open>new Date()\<close> is a parameter \<open>now\<close> of the handler.
  \<^item> Every store operation succeeds and schema validation is not modelled, so the
    \<^verbatim>\<open>catch\<close> branches (status 500) are outside the model, with one exception:
    a negative \<^verbatim>\<open>skip\<close>, which the request itself can cause.
  \<^item> A request payload holds fields of the schema with values of their schema types;
    Mongoose's casting and its dropping of unknown fields are not modelled.
  \<^item> What a handler emits on the socket is logged by room and event name.
\<close>

subsection \<open>JavaScript values and documents\<close>

datatype jsval =
    JStr string
  | JBool bool
  | JNum int
  | JDate nat
  | JArr "jsval list"
  | JObj "(string \<times> jsval) list"

type_synonym doc = "string \<rightharpoonup> jsval"

text \<open>Truthiness of a possibly undefined value, as \<^verbatim>\<open>if (x)\<close> and \<^verbatim>\<open>x || y\<close> read it.\<close>

fun truthy :: "jsval option \<Rightarrow> bool" where
  "truthy None = False"
| "truthy (Some (JStr s)) = (s \<noteq> [])"
| "truthy (Some (JBool b)) = b"
| "truthy (Some (JNum n)) = (n \<noteq> 0)"
| "truthy (Some (JDate t)) = True"
| "truthy (Some (JArr vs)) = True"
| "truthy (Some (JObj kvs)) = True"

definition js_or :: "jsval option \<Rightarrow> jsval option \<Rightarrow> jsval option" where
  "js_or a b = (if truthy a then a else b)"

text \<open>Interpolation of a field into a template string; the fields interpolated are
  strings by their schema.\<close>

fun show_js :: "jsval option \<Rightarrow> string" where
  "show_js (Some (JStr s)) = s"
| "show_js v = []"

subsection \<open>Responses\<close>

text \<open>An error response is its HTTP status with its message.  The handlers modelled
  answer 400 both for a missing field and for a listing in the wrong state; the latter
  is what the specification calls a conflict.\<close>

datatype error =
    Status400 string
  | Status403 string
  | Status404 string
  | Status500 string

subsection \<open>Collections\<close>

record claim =
  foodListingId :: nat
  claimedBy :: string
  claimerName :: "jsval option"
  claimerType :: "jsval option"
  claimType :: string
  estimatedPickupTime :: "nat option"
  actualPickupTime :: "nat option"
  claim_notes :: "string option"
  status :: string
  createdAt :: nat
  updatedAt :: nat

record chatMessage =
  chat_foodListingId :: nat
  senderId :: string
  senderName :: "jsval option"
  senderType :: string
  message :: string
  messageType :: string
  isRead :: bool
  chat_createdAt :: nat

record notification =
  userId :: "jsval option"
  title :: string
  notif_message :: string
  notif_type :: string
  relatedId :: "nat option"
  notif_isRead :: bool
  notif_priority :: string
  notif_createdAt :: nat

datatype room = Everyone | UserRoom "jsval option" | FoodRoom nat

record store =
  individuals :: "string \<rightharpoonup> doc"
  ngos :: "string \<rightharpoonup> doc"
  socialWorkers :: "string \<rightharpoonup> doc"
  foodListings :: "(nat \<times> doc) list"
  foodClaims :: "claim list"
  chatMessages :: "chatMessage list"
  notifications :: "notification list"
  emitted :: "(room \<times> string) list"

text \<open>\<^verbatim>\<open>Model.findOne(filter)\<close>: the position of the first document that matches.\<close>

fun findOne :: "('a \<Rightarrow> bool) \<Rightarrow> 'a list \<Rightarrow> nat option" where
  "findOne P [] = None"
| "findOne P (x # xs) = (if P x then Some 0 else map_option Suc (findOne P xs))"

definition findById :: "nat \<Rightarrow> (nat \<times> doc) list \<Rightarrow> doc option" where
  "findById i ls = map_of ls i"

text \<open>\<^verbatim>\<open>findByIdAndUpdate(id, update)\<close>: the fields of the update are set on the
  document with that id, the others are kept.\<close>

fun findByIdAndUpdate :: "nat \<Rightarrow> doc \<Rightarrow> (nat \<times> doc) list \<Rightarrow> (nat \<times> doc) list" where
  "findByIdAndUpdate i u [] = []"
| "findByIdAndUpdate i u ((j, d) # ls) =
     (if j = i then (j, d ++ u) # ls else (j, d) # findByIdAndUpdate i u ls)"

subsection \<open>Helper functions of the server\<close>

definition getUserByClerkId :: "string \<Rightarrow> store \<Rightarrow> doc option" where
  "getUserByClerkId clerkUserId s =
     (case individuals s clerkUserId of
        Some user \<Rightarrow> Some (user(''userType'' \<mapsto> JStr ''individual''))
      | None \<Rightarrow>
     (case ngos s clerkUserId of
        Some user \<Rightarrow> Some (user(''userType'' \<mapsto> JStr ''ngo''))
      | None \<Rightarrow>
     (case socialWorkers s clerkUserId of
        Some user \<Rightarrow> Some (user(''userType'' \<mapsto> JStr ''social-worker''))
      | None \<Rightarrow> None)))"

definition createNotification ::
  "jsval option \<Rightarrow> string \<Rightarrow> string \<Rightarrow> string \<Rightarrow> nat option \<Rightarrow> nat \<Rightarrow> store \<Rightarrow> store" where
  "createNotification uid ttl msg typ rel now s =
     s\<lparr>notifications := notifications s @
          [\<lparr>userId = uid, title = ttl, notif_message = msg, notif_type = typ,
            relatedId = rel, notif_isRead = False, notif_priority = ''medium'',
            notif_createdAt = now\<rparr>],
       emitted := emitted s @ [(UserRoom uid, ''new-notification'')]\<rparr>"

definition updateFoodStatus :: "nat \<Rightarrow> string \<Rightarrow> string \<Rightarrow> nat \<Rightarrow> store \<Rightarrow> store" where
  "updateFoodStatus foodId newStatus clerkUserId now s =
     (let s1 = s\<lparr>foodListings :=
                  findByIdAndUpdate foodId
                    [''status'' \<mapsto> JStr newStatus, ''updatedAt'' \<mapsto> JDate now]
                    (foodListings s)\<rparr>
      in case findById foodId (foodListings s1) of
           None \<Rightarrow> s1
         | Some food \<Rightarrow>
             let s2 = s1\<lparr>emitted := emitted s1 @ [(Everyone, ''food-status-updated'')]\<rparr>
             in if clerkUserId \<noteq> [] \<and> Some (JStr clerkUserId) \<noteq> food ''donorId''
                then createNotification (food ''donorId'') ''Food Status Updated''
                       (''Your food listing '' @ [CHR 0x22] @ show_js (food ''title'') @
                        [CHR 0x22] @ '' is now '' @ newStatus)
                       ''food-claimed'' (Some foodId) now s2
                else s2)"

subsection \<open>Reserve, claim, unclaim\<close>

definition live :: "claim \<Rightarrow> bool" where
  "live c = (status c = ''pending'' \<or> status c = ''confirmed'')"

definition reserve_handler ::
  "nat \<Rightarrow> string \<Rightarrow> nat option \<Rightarrow> string option \<Rightarrow> nat \<Rightarrow> store \<Rightarrow> (error + claim) \<times> store" where
  "reserve_handler lid clerkUserId est nts now s =
     (case findById lid (foodListings s) of
        None \<Rightarrow> (Inl (Status404 ''Food listing not found''), s)
      | Some listing \<Rightarrow>
          if listing ''status'' \<noteq> Some (JStr ''available'')
          then (Inl (Status400 ''Food is no longer available''), s)
          else
            (case getUserByClerkId clerkUserId s of
               None \<Rightarrow> (Inl (Status404 ''User not found''), s)
             | Some user \<Rightarrow>
                 let c = \<lparr>foodListingId = lid, claimedBy = clerkUserId,
                          claimerName = js_or (user ''fullName'') (user ''organizationName''),
                          claimerType = user ''userType'', claimType = ''reserved'',
                          estimatedPickupTime = est, actualPickupTime = None,
                          claim_notes = nts, status = ''pending'',
                          createdAt = now, updatedAt = now\<rparr>;
                     s1 = s\<lparr>foodClaims := foodClaims s @ [c]\<rparr>
                 in (Inr c, updateFoodStatus lid ''reserved'' clerkUserId now s1)))"

text \<open>What the claim handler assigns to a record it found: the kind, the pickup time,
  the status and the notes of the request.\<close>

definition picked_up :: "string option \<Rightarrow> nat \<Rightarrow> claim \<Rightarrow> claim" where
  "picked_up nts now c =
     c\<lparr>claimType := ''claimed'', actualPickupTime := Some now,
       status := ''picked-up'', claim_notes := nts\<rparr>"

definition claim_handler ::
  "nat \<Rightarrow> string \<Rightarrow> string option \<Rightarrow> nat \<Rightarrow> store \<Rightarrow> (error + claim) \<times> store" where
  "claim_handler lid clerkUserId nts now s =
     (case findById lid (foodListings s) of
        None \<Rightarrow> (Inl (Status404 ''Food listing not found''), s)
      | Some listing \<Rightarrow>
          if listing ''status'' = Some (JStr ''claimed'')
          then (Inl (Status400 ''Food has already been claimed''), s)
          else
            (case getUserByClerkId clerkUserId s of
               None \<Rightarrow> (Inl (Status404 ''User not found''), s)
             | Some user \<Rightarrow>
                 (case findOne (\<lambda>c. foodListingId c = lid \<and> claimedBy c = clerkUserId)
                         (foodClaims s) of
                    Some i \<Rightarrow>
                      let c = picked_up nts now (foodClaims s ! i);
                          s1 = s\<lparr>foodClaims := (foodClaims s)[i := c]\<rparr>
                      in (Inr c, updateFoodStatus lid ''claimed'' clerkUserId now s1)
                  | None \<Rightarrow>
                      let c = \<lparr>foodListingId = lid, claimedBy = clerkUserId,
                               claimerName =
                                 js_or (user ''fullName'') (user ''organizationName''),
                               claimerType = user ''userType'', claimType = ''claimed'',
                               estimatedPickupTime = None, actualPickupTime = Some now,
                               claim_notes = nts, status = ''picked-up'',
                               createdAt = now, updatedAt = now\<rparr>;
                          s1 = s\<lparr>foodClaims := foodClaims s @ [c]\<rparr>
                      in (Inr c, updateFoodStatus lid ''claimed'' clerkUserId now s1))))"

definition unclaim_handler ::
  "nat \<Rightarrow> string \<Rightarrow> nat \<Rightarrow> store \<Rightarrow> (error + unit) \<times> store" where
  "unclaim_handler lid clerkUserId now s =
     (case findOne (\<lambda>c. foodListingId c = lid \<and> claimedBy c = clerkUserId \<and>
                         status c \<in> set [''pending'', ''confirmed''])
             (foodClaims s) of
        None \<Rightarrow> (Inl (Status404 ''No active claim found''), s)
      | Some i \<Rightarrow>
          let c = (foodClaims s ! i)\<lparr>status := ''cancelled''\<rparr>;
              s1 = s\<lparr>foodClaims := (foodClaims s)[i := c]\<rparr>
          in (Inr (), updateFoodStatus lid ''available'' clerkUserId now s1))"

text \<open>The claim records of a listing, of a (listing, claimant) pair, and the live ones
  among them: the vocabulary of the properties below.\<close>

definition claims_on :: "nat \<Rightarrow> claim list \<Rightarrow> claim list" where
  "claims_on lid cs = filter (\<lambda>c. foodListingId c = lid) cs"

definition claims_of :: "nat \<Rightarrow> string \<Rightarrow> claim list \<Rightarrow> claim list" where
  "claims_of lid u cs = filter (\<lambda>c. foodListingId c = lid \<and> claimedBy c = u) cs"

definition live_claims_on :: "nat \<Rightarrow> claim list \<Rightarrow> claim list" where
  "live_claims_on lid cs = filter (\<lambda>c. foodListingId c = lid \<and> live c) cs"

definition live_claims_of :: "nat \<Rightarrow> string \<Rightarrow> claim list \<Rightarrow> claim list" where
  "live_claims_of lid u cs =
     filter (\<lambda>c. foodListingId c = lid \<and> claimedBy c = u \<and> live c) cs"

definition listing_status :: "nat \<Rightarrow> store \<Rightarrow> jsval option option" where
  "listing_status lid s = map_option (\<lambda>d. d ''status'') (findById lid (foodListings s))"

definition listing_field :: "string \<Rightarrow> nat \<Rightarrow> store \<Rightarrow> jsval option option" where
  "listing_field k lid s = map_option (\<lambda>d. d k) (findById lid (foodListings s))"

subsection \<open>Updating, deleting and reading a listing\<close>

definition update_handler ::
  "nat \<Rightarrow> doc \<Rightarrow> nat \<Rightarrow> store \<Rightarrow> (error + doc option) \<times> store" where
  "update_handler lid body now s =
     (let clerkUserId = body ''clerkUserId'';
          updateData = body(''clerkUserId'' := None)
      in case findById lid (foodListings s) of
           None \<Rightarrow> (Inl (Status404 ''Food listing not found''), s)
         | Some listing \<Rightarrow>
             if listing ''donorId'' \<noteq> clerkUserId
             then (Inl (Status403 ''Not authorized to update this listing''), s)
             else
               let ls = findByIdAndUpdate lid (updateData(''updatedAt'' \<mapsto> JDate now))
                          (foodListings s)
               in (Inr (findById lid ls),
                   s\<lparr>foodListings := ls,
                     emitted := emitted s @ [(Everyone, ''food-listing-updated'')]\<rparr>))"



subsection \<open>Discovery query\<close>














subsection \<open>Chat\<close>

definition chat_send_handler ::
  "nat \<Rightarrow> string \<Rightarrow> string \<Rightarrow> string option \<Rightarrow> nat \<Rightarrow> store \<Rightarrow> (error + chatMessage) \<times> store" where
  "chat_send_handler foodId clerkUserId msg mtype now s =
     (if clerkUserId = [] \<or> msg = []
      then (Inl (Status400 ''User ID and message are required''), s)
      else
        (case getUserByClerkId clerkUserId s of
           None \<Rightarrow> (Inl (Status404 ''User not found''), s)
         | Some user \<Rightarrow>
             (case findById foodId (foodListings s) of
                None \<Rightarrow> (Inl (Status404 ''Food listing not found''), s)
              | Some foodListing \<Rightarrow>
                  let sType = (if foodListing ''donorId'' = Some (JStr clerkUserId)
                               then ''donor'' else ''recipient'');
                      sName = js_or (js_or (user ''fullName'') (user ''organizationName''))
                                (user ''contactPerson'');
                      m = \<lparr>chat_foodListingId = foodId, senderId = clerkUserId,
                           senderName = sName, senderType = sType, message = msg,
                           messageType = (case mtype of None \<Rightarrow> ''text'' | Some t \<Rightarrow> t),
                           isRead = False, chat_createdAt = now\<rparr>;
                      s1 = s\<lparr>chatMessages := chatMessages s @ [m],
                             emitted := emitted s @ [(FoodRoom foodId, ''new-message'')]\<rparr>;
                      recipientId =
                        (if sType = ''donor''
                         then map_option (\<lambda>i. JStr (claimedBy (foodClaims s ! i)))
                                (findOne (\<lambda>c. foodListingId c = foodId) (foodClaims s))
                         else foodListing ''donorId'')
                  in if truthy recipientId \<and> recipientId \<noteq> Some (JStr clerkUserId)
                     then (Inr m,
                           createNotification recipientId ''New Message''
                             (show_js sName @ '': '' @
                              (if length msg > 50 then take 50 msg @ ''...'' else msg))
                             ''message'' (Some foodId) now s1)
                     else (Inr m, s1))))"

definition chat_read_handler :: "nat \<Rightarrow> string \<Rightarrow> store \<Rightarrow> store" where
  "chat_read_handler foodId clerkUserId s =
     s\<lparr>chatMessages :=
         map (\<lambda>m. if chat_foodListingId m = foodId \<and> senderId m \<noteq> clerkUserId \<and> \<not> isRead m
                  then m\<lparr>isRead := True\<rparr> else m)
           (chatMessages s)\<rparr>"

subsection \<open>Sequences of requests\<close>

datatype request =
    Reserve nat string "nat option" "string option"
  | Claim nat string "string option"
  | Unclaim nat string
  | Update nat doc

fun step :: "nat \<times> request \<Rightarrow> store \<Rightarrow> store" where
  "step (now, Reserve lid u est nts) s = snd (reserve_handler lid u est nts now s)"
| "step (now, Claim lid u nts) s = snd (claim_handler lid u nts now s)"
| "step (now, Unclaim lid u) s = snd (unclaim_handler lid u now s)"
| "step (now, Update lid body) s = snd (update_handler lid body now s)"

fun run :: "(nat \<times> request) list \<Rightarrow> store \<Rightarrow> store" where
  "run [] s = s"
| "run (r # rs) s = run rs (step r s)"


subsection \<open>A small store for concrete runs\<close>

definition bread :: doc where
  "bread = [''title'' \<mapsto> JStr ''Bread'', ''donorId'' \<mapsto> JStr ''dana'',
            ''status'' \<mapsto> JStr ''available'', ''isActive'' \<mapsto> JBool True,
            ''updatedAt'' \<mapsto> JDate 1]"

definition soup :: doc where
  "soup = [''title'' \<mapsto> JStr ''Soup'', ''donorId'' \<mapsto> JStr ''dana'',
           ''status'' \<mapsto> JStr ''claimed'', ''isActive'' \<mapsto> JBool True,
           ''updatedAt'' \<mapsto> JDate 1]"

definition pantry :: store where
  "pantry =
     \<lparr>individuals = [''dana'' \<mapsto> [''fullName'' \<mapsto> JStr ''Dana''],
                     ''ravi'' \<mapsto> [''fullName'' \<mapsto> JStr ''Ravi'']],
      ngos = [''kitchen'' \<mapsto> [''organizationName'' \<mapsto> JStr ''Community Kitchen'']],
      socialWorkers = Map.empty,
      foodListings = [(11, bread), (12, soup)],
      foodClaims = [], chatMessages = [], notifications = [], emitted = []\<rparr>"

text \<open>Stores reached from \<open>pantry\<close>: Ravi reserves the bread, cancels, reserves again.\<close>

definition pantry_reserved :: store where
  "pantry_reserved = step (5, Reserve 11 ''ravi'' None None) pantry"

definition pantry_cancelled :: store where
  "pantry_cancelled = step (6, Unclaim 11 ''ravi'') pantry_reserved"

definition pantry_twice :: store where
  "pantry_twice = step (7, Reserve 11 ''ravi'' None None) pantry_cancelled"





definition pantry_chat :: store where
  "pantry_chat = pantry\<lparr>chatMessages :=
     [\<lparr>chat_foodListingId = 11, senderId = ''ravi'', senderName = Some (JStr ''Ravi''),
       senderType = ''recipient'', message = ''Is it still there?'', messageType = ''text'',
       isRead = False, chat_createdAt = 2\<rparr>,
      \<lparr>chat_foodListingId = 11, senderId = ''dana'', senderName = Some (JStr ''Dana''),
       senderType = ''donor'', message = ''Yes'', messageType = ''text'',
       isRead = False, chat_createdAt = 3\<rparr>,
      \<lparr>chat_foodListingId = 12, senderId = ''ravi'', senderName = Some (JStr ''Ravi''),
       senderType = ''recipient'', message = ''Thanks'', messageType = ''text'',
       isRead = False, chat_createdAt = 4\<rparr>]\<rparr>"



section \<open>Basic facts about the store operations\<close>

lemma findOne_None_iff: "findOne P xs = None \<longleftrightarrow> (\<forall>x \<in> set xs. \<not> P x)"
  by (induction xs) auto

lemma findOne_Some:
  "findOne P xs = Some i \<Longrightarrow> i < length xs \<and> P (xs ! i) \<and> (\<forall>j < i. \<not> P (xs ! j))"
proof (induction xs arbitrary: i)
  case Nil
  then show ?case by simp
next
  case (Cons x xs)
  show ?case
  proof (cases "P x")
    case True
    with Cons.prems show ?thesis by simp
  next
    case False
    with Cons.prems obtain k where k: "findOne P xs = Some k" "i = Suc k"
      by auto
    from Cons.IH [OF k(1)] False k(2) show ?thesis
      by (auto simp: less_Suc_eq_0_disj)
  qed
qed

lemma findOne_filter_Nil: "findOne P xs = None \<longleftrightarrow> filter P xs = []"
  by (simp add: findOne_None_iff filter_empty_conv)

text \<open>Replacing one record of a collection, seen through a filter.\<close>

lemma filter_update_keep:
  "i < length xs \<Longrightarrow> P (xs ! i) \<Longrightarrow> P y \<Longrightarrow>
     length (filter P (xs[i := y])) = length (filter P xs)"
proof (induction xs arbitrary: i)
  case Nil
  then show ?case by simp
next
  case (Cons x xs)
  then show ?case by (cases i) auto
qed

lemma filter_update_single:
  "filter P xs = [c] \<Longrightarrow> i < length xs \<Longrightarrow> P (xs ! i) \<Longrightarrow> P y \<Longrightarrow>
     xs ! i = c \<and> filter P (xs[i := y]) = [y]"
proof (induction xs arbitrary: i)
  case Nil
  then show ?case by simp
next
  case (Cons x xs)
  show ?case
  proof (cases i)
    case 0
    with Cons.prems show ?thesis by (auto split: if_splits)
  next
    case (Suc k)
    show ?thesis
    proof (cases "P x")
      case True
      with Cons.prems(1) have "filter P xs = []" by simp
      moreover from Cons.prems Suc have "xs ! k \<in> set (filter P xs)" by simp
      ultimately show ?thesis by simp
    next
      case False
      with Cons.prems Suc Cons.IH [of k] show ?thesis by simp
    qed
  qed
qed




text \<open>Reading a listing back after an update by id.\<close>

lemma findById_findByIdAndUpdate:
  "findById j (findByIdAndUpdate i u ls) =
     (if j = i then map_option (\<lambda>d. d ++ u) (findById i ls) else findById j ls)"
  by (induction ls) (auto simp: findById_def)

lemma foodClaims_updateFoodStatus:
  "foodClaims (updateFoodStatus lid st u now s) = foodClaims s"
  by (simp add: updateFoodStatus_def Let_def createNotification_def split: option.splits)

lemma foodListings_updateFoodStatus:
  "foodListings (updateFoodStatus lid st u now s) =
     findByIdAndUpdate lid [''status'' \<mapsto> JStr st, ''updatedAt'' \<mapsto> JDate now] (foodListings s)"
  by (simp add: updateFoodStatus_def Let_def createNotification_def split: option.splits)

lemma listing_status_updateFoodStatus:
  "listing_status j (updateFoodStatus lid st u now s) =
     (if j = lid
      then map_option (\<lambda>d. Some (JStr st)) (findById lid (foodListings s))
      else listing_status j s)"
  by (simp add: listing_status_def foodListings_updateFoodStatus findById_findByIdAndUpdate
      option.map_comp comp_def)

lemma pantry_listings:
  "findById 11 (foodListings pantry) = Some bread"
  "findById 12 (foodListings pantry) = Some soup"
  by (simp_all add: pantry_def findById_def)

lemma pantry_users:
  "getUserByClerkId ''ravi'' pantry \<noteq> None"
  "getUserByClerkId ''dana'' pantry \<noteq> None"
  by (simp_all add: pantry_def getUserByClerkId_def)

lemma findById_updateFoodStatus:
  "findById j (foodListings (updateFoodStatus lid st u now s)) =
     (if j = lid
      then map_option (\<lambda>d. d ++ [''status'' \<mapsto> JStr st, ''updatedAt'' \<mapsto> JDate now])
             (findById lid (foodListings s))
      else findById j (foodListings s))"
  by (simp add: foodListings_updateFoodStatus findById_findByIdAndUpdate)

text \<open>None of the four requests touches the user collections.\<close>

lemma users_updateFoodStatus:
  "individuals (updateFoodStatus lid st a now s) = individuals s"
  "ngos (updateFoodStatus lid st a now s) = ngos s"
  "socialWorkers (updateFoodStatus lid st a now s) = socialWorkers s"
  by (simp_all add: updateFoodStatus_def Let_def createNotification_def split: option.splits)

lemma users_step:
  "individuals (step r s) = individuals s"
  "ngos (step r s) = ngos s"
  "socialWorkers (step r s) = socialWorkers s"
proof -
  obtain now q where r: "r = (now, q)" by (cases r)
  have "individuals (step r s) = individuals s \<and> ngos (step r s) = ngos s \<and>
        socialWorkers (step r s) = socialWorkers s"
  proof (cases q)
    case (Reserve lid a est nts)
    with r show ?thesis
      by (simp add: reserve_handler_def Let_def users_updateFoodStatus split: option.splits)
  next
    case (Claim lid a nts)
    with r show ?thesis
      by (simp add: claim_handler_def Let_def users_updateFoodStatus split: option.splits)
  next
    case (Unclaim lid a)
    with r show ?thesis
      by (simp add: unclaim_handler_def Let_def users_updateFoodStatus split: option.splits)
  next
    case (Update lid body)
    with r show ?thesis
      by (simp add: update_handler_def Let_def split: option.splits)
  qed
  then show "individuals (step r s) = individuals s" "ngos (step r s) = ngos s"
    "socialWorkers (step r s) = socialWorkers s"
    by simp_all
qed

lemma getUser_step: "getUserByClerkId u (step r s) = getUserByClerkId u s"
  by (simp add: getUserByClerkId_def users_step cong: option.case_cong)

lemma getUser_run: "getUserByClerkId u (run rs s) = getUserByClerkId u s"
  by (induction rs arbitrary: s) (simp_all add: getUser_step del: step.simps)

text \<open>The stores of the concrete runs, field by field.\<close>

lemma pantry_claims: "foodClaims pantry = []"
  by (simp add: pantry_def)

lemma ravi_resolves:
  "getUserByClerkId ''ravi'' pantry =
     Some [''fullName'' \<mapsto> JStr ''Ravi'', ''userType'' \<mapsto> JStr ''individual'']"
  by (simp add: pantry_def getUserByClerkId_def)

lemma ravi_resolves_later:
  "getUserByClerkId ''ravi'' pantry_reserved = getUserByClerkId ''ravi'' pantry"
  "getUserByClerkId ''ravi'' pantry_cancelled = getUserByClerkId ''ravi'' pantry"
  "getUserByClerkId ''ravi'' pantry_twice = getUserByClerkId ''ravi'' pantry"
  unfolding pantry_reserved_def pantry_cancelled_def pantry_twice_def getUser_step
  by (rule refl)+

lemma pantry_reserved_claims:
  "foodClaims pantry_reserved =
     [\<lparr>foodListingId = 11, claimedBy = ''ravi'', claimerName = Some (JStr ''Ravi''),
       claimerType = Some (JStr ''individual''), claimType = ''reserved'',
       estimatedPickupTime = None, actualPickupTime = None, claim_notes = None,
       status = ''pending'', createdAt = 5, updatedAt = 5\<rparr>]"
  by (simp add: pantry_reserved_def reserve_handler_def pantry_listings bread_def
      ravi_resolves pantry_claims js_or_def Let_def foodClaims_updateFoodStatus)

lemma pantry_reserved_listing:
  "findById 11 (foodListings pantry_reserved) =
     Some (bread ++ [''status'' \<mapsto> JStr ''reserved'', ''updatedAt'' \<mapsto> JDate 5])"
  by (simp add: pantry_reserved_def reserve_handler_def pantry_listings bread_def
      ravi_resolves Let_def findById_updateFoodStatus)

lemma pantry_cancelled_claims:
  "foodClaims pantry_cancelled =
     [\<lparr>foodListingId = 11, claimedBy = ''ravi'', claimerName = Some (JStr ''Ravi''),
       claimerType = Some (JStr ''individual''), claimType = ''reserved'',
       estimatedPickupTime = None, actualPickupTime = None, claim_notes = None,
       status = ''cancelled'', createdAt = 5, updatedAt = 5\<rparr>]"
  by (simp add: pantry_cancelled_def unclaim_handler_def pantry_reserved_claims Let_def
      foodClaims_updateFoodStatus)

lemma pantry_cancelled_listing:
  "findById 11 (foodListings pantry_cancelled) =
     Some (bread ++ [''status'' \<mapsto> JStr ''available'', ''updatedAt'' \<mapsto> JDate 6])"
  by (simp add: pantry_cancelled_def unclaim_handler_def pantry_reserved_claims Let_def
      findById_updateFoodStatus pantry_reserved_listing)

lemma pantry_twice_claims:
  "foodClaims pantry_twice =
     [\<lparr>foodListingId = 11, claimedBy = ''ravi'', claimerName = Some (JStr ''Ravi''),
       claimerType = Some (JStr ''individual''), claimType = ''reserved'',
       estimatedPickupTime = None, actualPickupTime = None, claim_notes = None,
       status = ''cancelled'', createdAt = 5, updatedAt = 5\<rparr>,
      \<lparr>foodListingId = 11, claimedBy = ''ravi'', claimerName = Some (JStr ''Ravi''),
       claimerType = Some (JStr ''individual''), claimType = ''reserved'',
       estimatedPickupTime = None, actualPickupTime = None, claim_notes = None,
       status = ''pending'', createdAt = 7, updatedAt = 7\<rparr>]"
  by (simp add: pantry_twice_def reserve_handler_def pantry_cancelled_listing
      pantry_cancelled_claims ravi_resolves_later ravi_resolves js_or_def Let_def
      foodClaims_updateFoodStatus)

lemma pantry_twice_listing:
  "findById 11 (foodListings pantry_twice) =
     Some (bread ++ [''status'' \<mapsto> JStr ''reserved'', ''updatedAt'' \<mapsto> JDate 7])"
  by (simp add: pantry_twice_def reserve_handler_def pantry_cancelled_listing
      ravi_resolves_later ravi_resolves Let_def findById_updateFoodStatus)

lemma live_claims_of_findOne:
  "findOne (\<lambda>c. foodListingId c = lid \<and> claimedBy c = u \<and>
                 status c \<in> set [''pending'', ''confirmed'']) cs = None
   \<longleftrightarrow> live_claims_of lid u cs = []"
  by (simp add: findOne_None_iff live_claims_of_def live_def filter_empty_conv)

lemma claims_of_findOne:
  "findOne (\<lambda>c. foodListingId c = lid \<and> claimedBy c = u) cs = None
   \<longleftrightarrow> claims_of lid u cs = []"
  by (simp add: findOne_filter_Nil claims_of_def)

section \<open>Reserve\<close>

text \<open>
  C4.  A reserve request on an existing listing whose status is not \<^verbatim>\<open>available\<close> is
  answered with status 400 (\<^verbatim>\<open>Food is no longer available\<close>, the conflict of the
  specification) and leaves the whole store as it was: no claim record is added and the
  listing is unchanged.  On an available listing, for an actor who resolves, the
  request appends one claim record of kind \<^verbatim>\<open>reserved\<close> and status \<^verbatim>\<open>pending\<close> and
  the listing's status becomes \<^verbatim>\<open>reserved\<close>.  The claim collection changes only when
  the status was \<^verbatim>\<open>available\<close>.
\<close>

theorem reserve_requires_available:
  assumes "findById lid (foodListings s) = Some listing"
  shows "(listing ''status'' \<noteq> Some (JStr ''available'') \<longrightarrow>
            reserve_handler lid u est nts now s =
              (Inl (Status400 ''Food is no longer available''), s)) \<and>
         (listing ''status'' = Some (JStr ''available'') \<and> getUserByClerkId u s \<noteq> None \<longrightarrow>
            (\<exists>c s'. reserve_handler lid u est nts now s = (Inr c, s') \<and>
               foodListingId c = lid \<and> claimedBy c = u \<and>
               claimType c = ''reserved'' \<and> status c = ''pending'' \<and>
               foodClaims s' = foodClaims s @ [c] \<and>
               listing_status lid s' = Some (Some (JStr ''reserved'')))) \<and>
         (foodClaims (snd (reserve_handler lid u est nts now s)) \<noteq> foodClaims s \<longrightarrow>
            listing ''status'' = Some (JStr ''available''))"
  using assms
  by (auto simp: reserve_handler_def Let_def listing_status_updateFoodStatus
      foodClaims_updateFoodStatus split: option.splits)

theorem reserve_requires_available_witness:
  "reserve_handler 12 ''ravi'' None None 5 pantry =
     (Inl (Status400 ''Food is no longer available''), pantry) \<and>
   (\<exists>c s'. reserve_handler 11 ''ravi'' None None 5 pantry = (Inr c, s') \<and>
      foodListingId c = 11 \<and> claimedBy c = ''ravi'' \<and>
      claimType c = ''reserved'' \<and> status c = ''pending'' \<and>
      foodClaims s' = foodClaims pantry @ [c] \<and>
      listing_status 11 s' = Some (Some (JStr ''reserved'')))"
  using reserve_requires_available [OF pantry_listings(2), of "''ravi''" None None 5]
    reserve_requires_available [OF pantry_listings(1), of "''ravi''" None None 5]
    pantry_users(1)
  by (simp add: bread_def soup_def)

section \<open>Unclaim\<close>

text \<open>
  C5.  An unclaim request by an actor who holds no live claim (status \<^verbatim>\<open>pending\<close> or
  \<^verbatim>\<open>confirmed\<close>) on the listing is answered with status 404 and leaves the store, and
  with it the listing's status, unchanged.  When the actor holds a live claim, one such
  claim record gets the status \<^verbatim>\<open>cancelled\<close>, no other record changes, and the
  listing (when it exists) gets the status \<^verbatim>\<open>available\<close>.
\<close>

theorem unclaim_needs_live_claim:
  "(live_claims_of lid u (foodClaims s) = [] \<longrightarrow>
      unclaim_handler lid u now s = (Inl (Status404 ''No active claim found''), s)) \<and>
   (live_claims_of lid u (foodClaims s) \<noteq> [] \<longrightarrow>
      (\<exists>i s'. unclaim_handler lid u now s = (Inr (), s') \<and>
         i < length (foodClaims s) \<and>
         foodClaims s ! i \<in> set (live_claims_of lid u (foodClaims s)) \<and>
         foodClaims s' = (foodClaims s)[i := (foodClaims s ! i)\<lparr>status := ''cancelled''\<rparr>] \<and>
         listing_status lid s' =
           map_option (\<lambda>d. Some (JStr ''available'')) (findById lid (foodListings s))))"
proof (cases "findOne (\<lambda>c. foodListingId c = lid \<and> claimedBy c = u \<and>
                 status c \<in> set [''pending'', ''confirmed'']) (foodClaims s)")
  case None
  then show ?thesis
    using live_claims_of_findOne [of lid u "foodClaims s"]
    by (simp add: unclaim_handler_def)
next
  case (Some i)
  from findOne_Some [OF Some]
  have i: "i < length (foodClaims s)"
    and m: "foodClaims s ! i \<in> set (live_claims_of lid u (foodClaims s))"
    by (auto simp: live_claims_of_def live_def)
  from m have ne: "live_claims_of lid u (foodClaims s) \<noteq> []" by auto
  define s' where "s' = snd (unclaim_handler lid u now s)"
  from Some have r: "unclaim_handler lid u now s = (Inr (), s')"
    by (simp add: s'_def unclaim_handler_def Let_def)
  from Some have c: "foodClaims s' =
      (foodClaims s)[i := (foodClaims s ! i)\<lparr>status := ''cancelled''\<rparr>]"
    by (simp add: s'_def unclaim_handler_def Let_def foodClaims_updateFoodStatus)
  from Some have l: "listing_status lid s' =
      map_option (\<lambda>d. Some (JStr ''available'')) (findById lid (foodListings s))"
    by (simp add: s'_def unclaim_handler_def Let_def listing_status_updateFoodStatus)
  from ne r i m c l show ?thesis by blast
qed

theorem unclaim_needs_live_claim_witness:
  "live_claims_of 11 ''ravi'' (foodClaims pantry) = [] \<and>
   unclaim_handler 11 ''ravi'' 6 pantry = (Inl (Status404 ''No active claim found''), pantry) \<and>
   live_claims_of 11 ''ravi'' (foodClaims pantry_reserved) \<noteq> [] \<and>
   (\<exists>i s'. unclaim_handler 11 ''ravi'' 6 pantry_reserved = (Inr (), s') \<and>
      i < length (foodClaims pantry_reserved) \<and>
      foodClaims pantry_reserved ! i \<in> set (live_claims_of 11 ''ravi'' (foodClaims pantry_reserved)) \<and>
      foodClaims s' =
        (foodClaims pantry_reserved)[i := (foodClaims pantry_reserved ! i)\<lparr>status := ''cancelled''\<rparr>] \<and>
      listing_status 11 s' =
        map_option (\<lambda>d. Some (JStr ''available'')) (findById 11 (foodListings pantry_reserved)))"
proof -
  have a: "live_claims_of 11 ''ravi'' (foodClaims pantry) = []"
    by (simp add: pantry_def live_claims_of_def)
  have b: "live_claims_of 11 ''ravi'' (foodClaims pantry_reserved) \<noteq> []"
    by (simp add: pantry_reserved_claims live_claims_of_def live_def)
  from a b unclaim_needs_live_claim [of 11 "''ravi''" pantry 6]
    unclaim_needs_live_claim [of 11 "''ravi''" pantry_reserved 6]
  show ?thesis by blast
qed

section \<open>Claim\<close>

text \<open>
  C6.  For an existing listing and an actor who resolves, the claim request is rejected
  if and only if the listing's status is \<^verbatim>\<open>claimed\<close>, and the rejection is the
  status 400 answer \<^verbatim>\<open>Food has already been claimed\<close> (the conflict of the
  specification) with the store unchanged.  From every other status, \<^verbatim>\<open>available\<close>
  included, the request succeeds and the listing's status becomes \<^verbatim>\<open>claimed\<close>;
  no reservation is needed first.
\<close>

theorem claim_conflict_iff:
  assumes "findById lid (foodListings s) = Some listing"
    and "getUserByClerkId u s \<noteq> None"
  shows "((\<exists>e. fst (claim_handler lid u nts now s) = Inl e) \<longleftrightarrow>
            listing ''status'' = Some (JStr ''claimed'')) \<and>
         (listing ''status'' = Some (JStr ''claimed'') \<longrightarrow>
            claim_handler lid u nts now s =
              (Inl (Status400 ''Food has already been claimed''), s)) \<and>
         (listing ''status'' \<noteq> Some (JStr ''claimed'') \<longrightarrow>
            (\<exists>c s'. claim_handler lid u nts now s = (Inr c, s') \<and>
               foodListingId c = lid \<and> claimedBy c = u \<and>
               claimType c = ''claimed'' \<and> status c = ''picked-up'' \<and>
               listing_status lid s' = Some (Some (JStr ''claimed''))))"
proof (cases "listing ''status'' = Some (JStr ''claimed'')")
  case True
  with assms show ?thesis by (simp add: claim_handler_def)
next
  case False
  from assms(2) obtain user where user: "getUserByClerkId u s = Some user" by auto
  show ?thesis
  proof (cases "findOne (\<lambda>c. foodListingId c = lid \<and> claimedBy c = u) (foodClaims s)")
    case None
    with False assms(1) user show ?thesis
      by (simp add: claim_handler_def Let_def listing_status_updateFoodStatus)
  next
    case (Some i)
    from findOne_Some [OF Some]
    have "foodListingId (foodClaims s ! i) = lid" "claimedBy (foodClaims s ! i) = u"
      by simp_all
    with Some False assms(1) user show ?thesis
      by (simp add: claim_handler_def Let_def listing_status_updateFoodStatus picked_up_def)
  qed
qed

theorem claim_conflict_iff_witness:
  "claim_handler 12 ''ravi'' None 5 pantry =
     (Inl (Status400 ''Food has already been claimed''), pantry) \<and>
   bread ''status'' = Some (JStr ''available'') \<and>
   (\<exists>c s'. claim_handler 11 ''ravi'' None 5 pantry = (Inr c, s') \<and>
      foodListingId c = 11 \<and> claimedBy c = ''ravi'' \<and>
      claimType c = ''claimed'' \<and> status c = ''picked-up'' \<and>
      listing_status 11 s' = Some (Some (JStr ''claimed'')))"
  using claim_conflict_iff [OF pantry_listings(2) pantry_users(1), of None 5]
    claim_conflict_iff [OF pantry_listings(1) pantry_users(1), of None 5]
  by (simp add: bread_def soup_def)

text \<open>
  C1 (as amended).  The claim handler looks the record up by listing and actor alone,
  whatever its status.  For a resolved actor on an existing listing whose status is not
  \<^verbatim>\<open>claimed\<close>: if the pair has no claim record, a new record is appended, already of
  kind \<^verbatim>\<open>claimed\<close> and status \<^verbatim>\<open>picked-up\<close> with the pickup time stamped; if the
  pair has a record, no record is added and the number of records of the pair stays the
  same; and if the pair has exactly one record (a single live reservation, or a claim
  cancelled earlier), that record is the one upgraded in place and it remains the only
  record of the pair.
\<close>

theorem claim_upserts_by_pair:
  assumes "findById lid (foodListings s) = Some listing"
    and "listing ''status'' \<noteq> Some (JStr ''claimed'')"
    and "getUserByClerkId u s \<noteq> None"
  shows "\<exists>c s'. claim_handler lid u nts now s = (Inr c, s') \<and>
           foodListingId c = lid \<and> claimedBy c = u \<and>
           claimType c = ''claimed'' \<and> status c = ''picked-up'' \<and>
           actualPickupTime c = Some now \<and>
           (claims_of lid u (foodClaims s) = [] \<longrightarrow> foodClaims s' = foodClaims s @ [c]) \<and>
           (claims_of lid u (foodClaims s) \<noteq> [] \<longrightarrow>
              length (foodClaims s') = length (foodClaims s) \<and>
              length (claims_of lid u (foodClaims s')) =
                length (claims_of lid u (foodClaims s))) \<and>
           (\<forall>c0. claims_of lid u (foodClaims s) = [c0] \<longrightarrow>
              c = picked_up nts now c0 \<and>
              claims_of lid u (foodClaims s') = [c] \<and>
              (\<exists>i<length (foodClaims s).
                 foodClaims s ! i = c0 \<and> foodClaims s' = (foodClaims s)[i := c]))"
proof -
  let ?P = "\<lambda>c. foodListingId c = lid \<and> claimedBy c = u"
  from assms(3) obtain user where user: "getUserByClerkId u s = Some user" by auto
  show ?thesis
  proof (cases "findOne ?P (foodClaims s)")
    case None
    then have e: "claims_of lid u (foodClaims s) = []"
      by (simp add: claims_of_findOne)
    from None assms(1,2) user e show ?thesis
      by (simp add: claim_handler_def Let_def foodClaims_updateFoodStatus)
  next
    case (Some i)
    define c where "c = picked_up nts now (foodClaims s ! i)"
    define s' where "s' = snd (claim_handler lid u nts now s)"
    from findOne_Some [OF Some]
    have i: "i < length (foodClaims s)" and Pi: "?P (foodClaims s ! i)"
      by simp_all
    have Pc: "?P c" using Pi by (simp add: c_def picked_up_def)
    from Some assms(1,2) user have r: "claim_handler lid u nts now s = (Inr c, s')"
      by (simp add: claim_handler_def Let_def c_def s'_def)
    from Some assms(1,2) user have cs: "foodClaims s' = (foodClaims s)[i := c]"
      by (simp add: claim_handler_def Let_def c_def s'_def foodClaims_updateFoodStatus)
    have f: "claimType c = ''claimed'' \<and> status c = ''picked-up'' \<and>
             actualPickupTime c = Some now"
      by (simp add: c_def picked_up_def)
    from Some have ne: "claims_of lid u (foodClaims s) \<noteq> []"
      using claims_of_findOne [of lid u "foodClaims s"] by simp
    have len: "length (claims_of lid u (foodClaims s')) =
                 length (claims_of lid u (foodClaims s))"
      unfolding claims_of_def cs using i Pi Pc by (rule filter_update_keep)
    have single: "c = picked_up nts now c0 \<and> claims_of lid u (foodClaims s') = [c] \<and>
        (\<exists>j<length (foodClaims s).
           foodClaims s ! j = c0 \<and> foodClaims s' = (foodClaims s)[j := c])"
      if "claims_of lid u (foodClaims s) = [c0]" for c0
    proof -
      from that have "filter ?P (foodClaims s) = [c0]" by (simp add: claims_of_def)
      from filter_update_single [OF this i Pi Pc]
      have "foodClaims s ! i = c0" and "filter ?P ((foodClaims s)[i := c]) = [c]"
        by simp_all
      with i cs show ?thesis by (auto simp: claims_of_def c_def)
    qed
    from r Pc f ne cs len single show ?thesis by auto
  qed
qed

theorem claim_upserts_by_pair_witness:
  "(\<exists>c s'. claim_handler 11 ''ravi'' None 9 pantry = (Inr c, s') \<and>
      claimType c = ''claimed'' \<and> status c = ''picked-up'' \<and> actualPickupTime c = Some 9 \<and>
      foodClaims s' = foodClaims pantry @ [c]) \<and>
   (\<exists>c s'. claim_handler 11 ''ravi'' None 9 pantry_reserved = (Inr c, s') \<and>
      claimType c = ''claimed'' \<and> status c = ''picked-up'' \<and> actualPickupTime c = Some 9 \<and>
      length (foodClaims s') = length (foodClaims pantry_reserved) \<and>
      c = picked_up None 9 (hd (foodClaims pantry_reserved)) \<and>
      claims_of 11 ''ravi'' (foodClaims s') = [c])"
proof -
  have e: "claims_of 11 ''ravi'' (foodClaims pantry) = []"
    by (simp add: pantry_def claims_of_def)
  have o: "claims_of 11 ''ravi'' (foodClaims pantry_reserved) = [hd (foodClaims pantry_reserved)]"
    by (simp add: pantry_reserved_claims claims_of_def)
  have u: "getUserByClerkId ''ravi'' pantry_reserved \<noteq> None"
    by (simp add: ravi_resolves_later ravi_resolves)
  have "bread ''status'' \<noteq> Some (JStr ''claimed'')" by (simp add: bread_def)
  from claim_upserts_by_pair [OF pantry_listings(1) this pantry_users(1), of None 9] e
  have first: "\<exists>c s'. claim_handler 11 ''ravi'' None 9 pantry = (Inr c, s') \<and>
      claimType c = ''claimed'' \<and> status c = ''picked-up'' \<and> actualPickupTime c = Some 9 \<and>
      foodClaims s' = foodClaims pantry @ [c]"
    by auto
  have "(bread ++ [''status'' \<mapsto> JStr ''reserved'', ''updatedAt'' \<mapsto> JDate 5]) ''status''
          \<noteq> Some (JStr ''claimed'')"
    by simp
  from claim_upserts_by_pair [OF pantry_reserved_listing this u, of None 9] o
  have second: "\<exists>c s'. claim_handler 11 ''ravi'' None 9 pantry_reserved = (Inr c, s') \<and>
      claimType c = ''claimed'' \<and> status c = ''picked-up'' \<and> actualPickupTime c = Some 9 \<and>
      length (foodClaims s') = length (foodClaims pantry_reserved) \<and>
      c = picked_up None 9 (hd (foodClaims pantry_reserved)) \<and>
      claims_of 11 ''ravi'' (foodClaims s') = [c]"
    by (auto simp del: hd_conv_nth)
  from first second show ?thesis by blast
qed

text \<open>
  The claim as stated, with "live" in it, fails.  After Ravi has reserved and cancelled,
  he holds no live claim on the bread, yet his claim request creates no new record: the
  cancelled one is reused.  After he has reserved, cancelled and reserved again, his
  claim request upgrades the cancelled record (the first of the pair), the live
  reservation stays pending, and the pair has two records.
\<close>

theorem claim_live_upgrade_counterexample:
  "getUserByClerkId ''ravi'' pantry_cancelled \<noteq> None \<and>
   listing_status 11 pantry_cancelled = Some (Some (JStr ''available'')) \<and>
   live_claims_of 11 ''ravi'' (foodClaims pantry_cancelled) = [] \<and>
   length (foodClaims pantry_cancelled) = 1 \<and>
   length (foodClaims (snd (claim_handler 11 ''ravi'' None 9 pantry_cancelled))) = 1 \<and>
   getUserByClerkId ''ravi'' pantry_twice \<noteq> None \<and>
   listing_status 11 pantry_twice = Some (Some (JStr ''reserved'')) \<and>
   length (live_claims_of 11 ''ravi'' (foodClaims pantry_twice)) = 1 \<and>
   length (claims_of 11 ''ravi''
     (foodClaims (snd (claim_handler 11 ''ravi'' None 9 pantry_twice)))) = 2 \<and>
   live_claims_of 11 ''ravi'' (foodClaims (snd (claim_handler 11 ''ravi'' None 9 pantry_twice))) =
     live_claims_of 11 ''ravi'' (foodClaims pantry_twice)"
proof -
  have u1: "getUserByClerkId ''ravi'' pantry_cancelled \<noteq> None"
    and u2: "getUserByClerkId ''ravi'' pantry_twice \<noteq> None"
    by (simp_all add: ravi_resolves_later ravi_resolves)
  have st1: "listing_status 11 pantry_cancelled = Some (Some (JStr ''available''))"
    and st2: "listing_status 11 pantry_twice = Some (Some (JStr ''reserved''))"
    by (simp_all add: listing_status_def pantry_cancelled_listing pantry_twice_listing)
  have a: "length (foodClaims (snd (claim_handler 11 ''ravi'' None 9 pantry_cancelled))) = 1"
    by (simp add: claim_handler_def Let_def pantry_cancelled_listing pantry_cancelled_claims
        ravi_resolves_later ravi_resolves foodClaims_updateFoodStatus)
  have b: "foodClaims (snd (claim_handler 11 ''ravi'' None 9 pantry_twice)) =
     [picked_up None 9 (foodClaims pantry_twice ! 0), foodClaims pantry_twice ! 1]"
    by (simp add: claim_handler_def Let_def pantry_twice_listing pantry_twice_claims
        ravi_resolves_later ravi_resolves foodClaims_updateFoodStatus)
  have c: "live_claims_of 11 ''ravi'' (foodClaims pantry_cancelled) = []"
    "length (foodClaims pantry_cancelled) = 1"
    by (simp_all add: pantry_cancelled_claims live_claims_of_def live_def)
  have d: "length (live_claims_of 11 ''ravi'' (foodClaims pantry_twice)) = 1"
    "length (claims_of 11 ''ravi''
       [picked_up None 9 (foodClaims pantry_twice ! 0), foodClaims pantry_twice ! 1]) = 2"
    "live_claims_of 11 ''ravi''
       [picked_up None 9 (foodClaims pantry_twice ! 0), foodClaims pantry_twice ! 1] =
     live_claims_of 11 ''ravi'' (foodClaims pantry_twice)"
    by (simp_all add: pantry_twice_claims live_claims_of_def claims_of_def live_def
        picked_up_def)
  from u1 u2 st1 st2 a c d show ?thesis
    unfolding b by blast
qed

section \<open>At most one live claim\<close>



lemma listing_status_claims_upd [simp]:
  "listing_status j (s\<lparr>foodClaims := cs\<rparr>) = listing_status j s"
  by (simp add: listing_status_def)










section \<open>Chat\<close>

lemma claims_on_findOne:
  "findOne (\<lambda>c. foodListingId c = lid) cs = None \<longleftrightarrow> claims_on lid cs = []"
  by (simp add: findOne_filter_Nil claims_on_def)

lemma notifications_createNotification:
  "notifications (createNotification uid ttl msg typ rel now s) =
     notifications s @
       [\<lparr>userId = uid, title = ttl, notif_message = msg, notif_type = typ,
         relatedId = rel, notif_isRead = False, notif_priority = ''medium'',
         notif_createdAt = now\<rparr>]"
  by (simp add: createNotification_def)

lemma dana_resolves:
  "getUserByClerkId ''dana'' pantry \<noteq> None"
  "getUserByClerkId ''dana'' pantry_reserved \<noteq> None"
  "getUserByClerkId ''dana'' pantry_cancelled \<noteq> None"
  unfolding pantry_reserved_def pantry_cancelled_def getUser_step
  by (simp_all add: pantry_def getUserByClerkId_def)

text \<open>
  C3 (as amended).  A chat message sent on an existing listing by a resolved actor is
  stored with the role \<^verbatim>\<open>donor\<close> when the sender's id equals the listing's donor id
  and \<^verbatim>\<open>recipient\<close> otherwise.  For a donor the counterpart is taken, at send time,
  from a claim record of the listing whatever its status: with no claim record at all no
  notification is sent; when all claim records of the listing belong to one claimant
  (in particular when there is exactly one record), that claimant is notified, unless
  the claimant is the sender.  For a recipient the listing's donor is notified.
\<close>

theorem chat_notifies_counterpart:
  assumes "u \<noteq> []" and "msg \<noteq> []"
    and "getUserByClerkId u s \<noteq> None"
    and "findById lid (foodListings s) = Some listing"
  shows "\<exists>m s'. chat_send_handler lid u msg mt now s = (Inr m, s') \<and>
           senderType m =
             (if listing ''donorId'' = Some (JStr u) then ''donor'' else ''recipient'') \<and>
           (listing ''donorId'' = Some (JStr u) \<and> claims_on lid (foodClaims s) = [] \<longrightarrow>
              notifications s' = notifications s) \<and>
           (\<forall>c. listing ''donorId'' = Some (JStr u) \<and> claims_on lid (foodClaims s) \<noteq> [] \<and>
                (\<forall>x \<in> set (claims_on lid (foodClaims s)). claimedBy x = c) \<longrightarrow>
                (if c = [] \<or> c = u then notifications s' = notifications s
                 else \<exists>n. notifications s' = notifications s @ [n] \<and>
                        userId n = Some (JStr c) \<and> notif_type n = ''message'' \<and>
                        relatedId n = Some lid)) \<and>
           (listing ''donorId'' \<noteq> Some (JStr u) \<and> truthy (listing ''donorId'') \<longrightarrow>
              (\<exists>n. notifications s' = notifications s @ [n] \<and>
                 userId n = listing ''donorId'' \<and> notif_type n = ''message'' \<and>
                 relatedId n = Some lid))"
proof -
  from assms(3) obtain user where user: "getUserByClerkId u s = Some user" by auto
  show ?thesis
  proof (cases "listing ''donorId'' = Some (JStr u)")
    case False
    with assms(1,2,4) user show ?thesis
      by (simp add: chat_send_handler_def Let_def notifications_createNotification)
  next
    case True
    show ?thesis
    proof (cases "findOne (\<lambda>c. foodListingId c = lid) (foodClaims s)")
      case None
      then have "claims_on lid (foodClaims s) = []" by (simp add: claims_on_findOne)
      with None True assms(1,2,4) user show ?thesis
        by (simp add: chat_send_handler_def Let_def)
    next
      case (Some i)
      from findOne_Some [OF Some]
      have mem: "foodClaims s ! i \<in> set (claims_on lid (foodClaims s))"
        by (simp add: claims_on_def)
      then have ne: "claims_on lid (foodClaims s) \<noteq> []" by auto
      define s' where "s' = snd (chat_send_handler lid u msg mt now s)"
      let ?c0 = "claimedBy (foodClaims s ! i)"
      from Some True assms(1,2,4) user
      have r: "\<exists>m. chat_send_handler lid u msg mt now s = (Inr m, s') \<and>
                 senderType m = ''donor''"
        by (simp add: s'_def chat_send_handler_def Let_def)
      from Some True assms(1,2,4) user
      have n: "if ?c0 = [] \<or> ?c0 = u then notifications s' = notifications s
               else \<exists>n. notifications s' = notifications s @ [n] \<and>
                      userId n = Some (JStr ?c0) \<and> notif_type n = ''message'' \<and>
                      relatedId n = Some lid"
        by (simp add: s'_def chat_send_handler_def Let_def notifications_createNotification)
      have all: "\<forall>c. (\<forall>x \<in> set (claims_on lid (foodClaims s)). claimedBy x = c) \<longrightarrow>
            (if c = [] \<or> c = u then notifications s' = notifications s
             else \<exists>n. notifications s' = notifications s @ [n] \<and>
                    userId n = Some (JStr c) \<and> notif_type n = ''message'' \<and>
                    relatedId n = Some lid)"
      proof (intro allI impI)
        fix c
        assume "\<forall>x \<in> set (claims_on lid (foodClaims s)). claimedBy x = c"
        with mem have "?c0 = c" by blast
        with n show "if c = [] \<or> c = u then notifications s' = notifications s
             else \<exists>n. notifications s' = notifications s @ [n] \<and>
                    userId n = Some (JStr c) \<and> notif_type n = ''message'' \<and>
                    relatedId n = Some lid"
          by (auto split: if_splits)
      qed
      from r obtain m where m: "chat_send_handler lid u msg mt now s = (Inr m, s')"
        "senderType m = ''donor''"
        by blast
      show ?thesis
        by (rule exI [of _ m], rule exI [of _ s']) (use m True ne all in simp)
    qed
  qed
qed

theorem chat_notifies_counterpart_witness:
  "(\<exists>m s'. chat_send_handler 11 ''dana'' ''Hello'' None 9 pantry = (Inr m, s') \<and>
      senderType m = ''donor'' \<and> notifications s' = notifications pantry) \<and>
   (\<exists>m s' n. chat_send_handler 11 ''dana'' ''Hello'' None 9 pantry_reserved = (Inr m, s') \<and>
      senderType m = ''donor'' \<and>
      notifications s' = notifications pantry_reserved @ [n] \<and>
      userId n = Some (JStr ''ravi'')) \<and>
   (\<exists>m s' n. chat_send_handler 11 ''ravi'' ''Hello'' None 9 pantry_reserved = (Inr m, s') \<and>
      senderType m = ''recipient'' \<and>
      notifications s' = notifications pantry_reserved @ [n] \<and>
      userId n = Some (JStr ''dana''))"
proof -
  let ?l = "bread ++ [''status'' \<mapsto> JStr ''reserved'', ''updatedAt'' \<mapsto> JDate 5]"
  have ne: "''dana'' \<noteq> []" "''ravi'' \<noteq> []" "''Hello'' \<noteq> []" by simp_all
  have u: "getUserByClerkId ''ravi'' pantry_reserved \<noteq> None"
    by (simp add: ravi_resolves_later ravi_resolves)
  have d: "bread ''donorId'' = Some (JStr ''dana'')" "?l ''donorId'' = Some (JStr ''dana'')"
    "?l ''donorId'' \<noteq> Some (JStr ''ravi'')" "truthy (?l ''donorId'')"
    by (simp_all add: bread_def)
  have c0: "claims_on 11 (foodClaims pantry) = []"
    by (simp add: pantry_claims claims_on_def)
  have c1: "claims_on 11 (foodClaims pantry_reserved) \<noteq> []"
    "\<forall>x \<in> set (claims_on 11 (foodClaims pantry_reserved)). claimedBy x = ''ravi''"
    by (simp_all add: pantry_reserved_claims claims_on_def)
  from chat_notifies_counterpart [of "''dana''" "''Hello''" pantry 11 bread None 9,
      OF ne(1) ne(3) dana_resolves(1) pantry_listings(1)] d(1) c0
  have first: "\<exists>m s'. chat_send_handler 11 ''dana'' ''Hello'' None 9 pantry = (Inr m, s') \<and>
      senderType m = ''donor'' \<and> notifications s' = notifications pantry"
    by auto
  from chat_notifies_counterpart [of "''dana''" "''Hello''" pantry_reserved 11 ?l None 9,
      OF ne(1) ne(3) dana_resolves(2) pantry_reserved_listing]
  obtain m s' where m: "chat_send_handler 11 ''dana'' ''Hello'' None 9 pantry_reserved = (Inr m, s')"
    "senderType m = (if ?l ''donorId'' = Some (JStr ''dana'') then ''donor'' else ''recipient'')"
    and all: "\<forall>c. ?l ''donorId'' = Some (JStr ''dana'') \<and>
                claims_on 11 (foodClaims pantry_reserved) \<noteq> [] \<and>
                (\<forall>x \<in> set (claims_on 11 (foodClaims pantry_reserved)). claimedBy x = c) \<longrightarrow>
                (if c = [] \<or> c = ''dana'' then notifications s' = notifications pantry_reserved
                 else \<exists>n. notifications s' = notifications pantry_reserved @ [n] \<and>
                        userId n = Some (JStr c) \<and> notif_type n = ''message'' \<and>
                        relatedId n = Some 11)"
    by blast
  from all d(2) c1 have "\<exists>n. notifications s' = notifications pantry_reserved @ [n] \<and>
      userId n = Some (JStr ''ravi'') \<and> notif_type n = ''message'' \<and> relatedId n = Some 11"
    by (auto dest!: spec [of _ "''ravi''"])
  with m d(2) have second:
    "\<exists>m s' n. chat_send_handler 11 ''dana'' ''Hello'' None 9 pantry_reserved = (Inr m, s') \<and>
      senderType m = ''donor'' \<and>
      notifications s' = notifications pantry_reserved @ [n] \<and>
      userId n = Some (JStr ''ravi'')"
    by auto
  from chat_notifies_counterpart [of "''ravi''" "''Hello''" pantry_reserved 11 ?l None 9,
      OF ne(2) ne(3) u pantry_reserved_listing] d(2,3,4)
  have third:
    "\<exists>m s' n. chat_send_handler 11 ''ravi'' ''Hello'' None 9 pantry_reserved = (Inr m, s') \<and>
      senderType m = ''recipient'' \<and>
      notifications s' = notifications pantry_reserved @ [n] \<and>
      userId n = Some (JStr ''dana'')"
    by auto
  from first second third show ?thesis by blast
qed

text \<open>
  With "live" in it the claim fails.  After Ravi has reserved the bread and cancelled,
  the listing has no live claim, yet a message of the donor still notifies Ravi: the
  lookup \<^verbatim>\<open>FoodClaim.findOne({ foodListingId })\<close> does not look at the status.
\<close>

theorem chat_stale_claimant_counterexample:
  "listing_field ''donorId'' 11 pantry_cancelled = Some (Some (JStr ''dana'')) \<and>
   live_claims_on 11 (foodClaims pantry_cancelled) = [] \<and>
   map userId (notifications (snd (chat_send_handler 11 ''dana'' ''Hello'' None 9 pantry_cancelled))) =
     map userId (notifications pantry_cancelled) @ [Some (JStr ''ravi'')]"
proof -
  from dana_resolves(3) obtain user where
    user: "getUserByClerkId ''dana'' pantry_cancelled = Some user" by auto
  have a: "listing_field ''donorId'' 11 pantry_cancelled = Some (Some (JStr ''dana''))"
    by (simp add: listing_field_def pantry_cancelled_listing bread_def)
  have b: "live_claims_on 11 (foodClaims pantry_cancelled) = []"
    by (simp add: pantry_cancelled_claims live_claims_on_def live_def)
  have c: "map userId (notifications (snd (chat_send_handler 11 ''dana'' ''Hello'' None 9 pantry_cancelled))) =
     map userId (notifications pantry_cancelled) @ [Some (JStr ''ravi'')]"
    by (simp add: chat_send_handler_def Let_def user pantry_cancelled_listing
        pantry_cancelled_claims notifications_createNotification bread_def)
  from a b c show ?thesis by blast
qed

text \<open>
  C8.  Marking the chat of a listing as read is idempotent: a second run changes
  nothing.  One run turns the read flag on for exactly the messages of that listing not
  sent by the requesting actor (a flag already on stays on), and changes nothing but
  read flags.
\<close>

theorem chat_read_idempotent:
  "chat_read_handler f u (chat_read_handler f u s) = chat_read_handler f u s \<and>
   map isRead (chatMessages (chat_read_handler f u s)) =
     map (\<lambda>m. isRead m \<or> (chat_foodListingId m = f \<and> senderId m \<noteq> u)) (chatMessages s) \<and>
   map (\<lambda>m. m\<lparr>isRead := False\<rparr>) (chatMessages (chat_read_handler f u s)) =
     map (\<lambda>m. m\<lparr>isRead := False\<rparr>) (chatMessages s)"
proof -
  let ?g = "\<lambda>m. if chat_foodListingId m = f \<and> senderId m \<noteq> u \<and> \<not> isRead m
                 then m\<lparr>isRead := True\<rparr> else m"
  have "?g (?g m) = ?g m" for m by simp
  then have "map ?g (map ?g ms) = map ?g ms" for ms :: "chatMessage list"
    by (induction ms) simp_all
  then have a: "chat_read_handler f u (chat_read_handler f u s) = chat_read_handler f u s"
    by (simp add: chat_read_handler_def del: map_map)
  have b: "map isRead (chatMessages (chat_read_handler f u s)) =
     map (\<lambda>m. isRead m \<or> (chat_foodListingId m = f \<and> senderId m \<noteq> u)) (chatMessages s)"
    by (auto simp: chat_read_handler_def)
  have c: "map (\<lambda>m. m\<lparr>isRead := False\<rparr>) (chatMessages (chat_read_handler f u s)) =
     map (\<lambda>m. m\<lparr>isRead := False\<rparr>) (chatMessages s)"
    by (auto simp: chat_read_handler_def)
  from a b c show ?thesis by blast
qed

theorem chat_read_idempotent_witness:
  "chat_read_handler 11 ''dana'' (chat_read_handler 11 ''dana'' pantry_chat) =
     chat_read_handler 11 ''dana'' pantry_chat \<and>
   map isRead (chatMessages (chat_read_handler 11 ''dana'' pantry_chat)) = [True, False, False]"
  using chat_read_idempotent [of 11 "''dana''" pantry_chat]
  by (simp add: pantry_chat_def)

section \<open>Updating a listing\<close>





section \<open>Soft delete and discovery\<close>








end
